theory Spec2Isabelle
  imports Complex_Main "HOL-Library.Word"
begin

section \<open>Python values, errors and numpy arrays\<close>

text \<open>
  The development embeds \<^verbatim>\<open>apps/DeepFaceLive/backend/BackendBase.py\<close>. Python objects
  are mutable and shared; the embedding passes every state explicitly. An exception is the
  \<open>Inl\<close> branch of a sum, and a method that mutates returns its result together with
  the state the call leaves behind, so that what a failing call did to the state can be read
  off.
\<close>

datatype py_error =
    AttributeError            \<comment> \<open>an attribute looked up on \<open>None\<close>\<close>
  | ValueError string         \<comment> \<open>raised by \<open>add_face_mark\<close> and by numpy, with the message\<close>
  | TypeError                 \<comment> \<open>numpy: buffer is too small for requested array\<close>

type_synonym bytes = "8 word list"

text \<open>
  A Python value as \<open>add_face_mark\<close> can receive it: an instance of \<open>FaceMark\<close> (the class
  is imported from \<open>xlib.facemeta\<close>; its content is the parameter \<open>'fm\<close>) or a value of
  another class.
\<close>

datatype 'fm py_value =
    PyFaceMark 'fm
  | PyNone
  | PyInt int
  | PyStr string
  | PyBytes bytes

fun isinstance_FaceMark :: "'fm py_value \<Rightarrow> bool" where
  "isinstance_FaceMark (PyFaceMark _) = True"
| "isinstance_FaceMark _ = False"

text \<open>
  A numpy array as the envelope uses it: \<open>image.shape\<close>, \<open>image.dtype\<close> and the bytes of
  the array's buffer. Of a dtype the name, the kind (numpy's one-character code:
  \<open>u\<close> unsigned, \<open>i\<close> signed, \<open>f\<close> floating, \<open>M\<close> datetime64, \<open>m\<close> timedelta64, ...) and the
  item size matter here.
\<close>

record np_dtype =
  dtype_name :: string
  dtype_kind :: char
  itemsize :: nat

record ndarray =
  shape :: "nat list"
  dtype :: np_dtype
  data :: bytes

definition nbytes :: "nat list \<Rightarrow> np_dtype \<Rightarrow> nat" where
  "nbytes sh dt = prod_list sh * itemsize dt"

text \<open>
  numpy counts bytes in a signed machine word (64 bits here) and refuses an array whose
  size does not fit: the product of the item size and the non-zero dimensions must not
  exceed the largest such number.
\<close>

definition max_intp :: nat where
  "max_intp = 2 ^ 63 - 1"

definition array_too_big :: "nat list \<Rightarrow> np_dtype \<Rightarrow> bool" where
  "array_too_big sh dt = (max_intp < prod_list (filter (\<lambda>d. d \<noteq> 0) sh) * itemsize dt)"


text \<open>
  \<open>image.data\<close> exports the array's memory through the buffer protocol. numpy has no
  buffer format for datetime64 and timedelta64 and raises \<open>ValueError\<close> (cannot include
  dtype in a buffer) for an array of either; for every other kind the export is the
  array's bytes.
\<close>

definition exports_buffer :: "np_dtype \<Rightarrow> bool" where
  "exports_buffer dt = (dtype_kind dt \<noteq> CHR ''M'' \<and> dtype_kind dt \<noteq> CHR ''m'')"

definition ndarray_data :: "ndarray \<Rightarrow> py_error + bytes" where
  "ndarray_data a =
     (if exports_buffer (dtype a) then Inr (data a)
      else Inl (ValueError ''cannot include dtype in a buffer''))"

text \<open>
  \<^verbatim>\<open>np.ndarray(shape, dtype=dtype, buffer=buffer)\<close>: a view of the leading
  \<open>prod shape * itemsize\<close> bytes of the buffer (offset 0, C order). numpy raises
  \<open>ValueError\<close> (array is too big) when the size does not fit the machine word, and
  \<open>TypeError\<close> (buffer is too small for requested array) when the buffer holds fewer
  bytes than the array needs.
\<close>

definition np_ndarray :: "nat list \<Rightarrow> np_dtype \<Rightarrow> bytes \<Rightarrow> py_error + ndarray" where
  "np_ndarray sh dt buffer =
     (if array_too_big sh dt then Inl (ValueError ''array is too big'')
      else if length buffer < nbytes sh dt then Inl TypeError
      else Inr \<lparr>shape = sh, dtype = dt, data = take (nbytes sh dt) buffer\<rparr>)"

section \<open>The weak heap\<close>

text \<open>
  \<open>lib_mp.MPWeakHeap\<close> is imported, not defined, by the file. The envelope calls two of its
  methods, which are parameters of the embedding: \<open>add_data\<close> stores a blob and returns its
  handle together with the heap it leaves, \<open>get_data\<close> resolves a handle to the blob or to
  \<open>None\<close>. \<open>'h\<close> is the heap's state and \<open>'r\<close> the handle.
\<close>

record ('h, 'r) MPWeakHeap =
  add_data :: "'h \<Rightarrow> bytes \<Rightarrow> 'r \<times> 'h"
  get_data :: "'h \<Rightarrow> 'r \<Rightarrow> bytes option"

text \<open>
  A heap is an object that several envelopes of one process refer to. The process keeps its
  heaps in a store indexed by the object's identity; an envelope holds the identity.
\<close>

type_synonym 'h heaps = "nat \<Rightarrow> 'h"

section \<open>BackendConnectionData\<close>

record ('r, 'fm) BackendConnectionData =
  weak_heap :: "nat option"
  weak_heap_refs :: "string \<rightharpoonup> 'r"
  weak_heap_image_infos :: "string \<rightharpoonup> nat list \<times> np_dtype"
  uid :: int
  is_frame_reemitted :: "bool option"
  frame_name :: "string option"
  frame_count :: "int option"
  frame_num :: "int option"
  frame_fps :: "real option"
  frame_timestamp :: "real option"
  merged_frame_name :: "string option"
  face_mark_list :: "'fm py_value list"

definition BackendConnectionData_init :: "int \<Rightarrow> ('r, 'fm) BackendConnectionData" where
  "BackendConnectionData_init u =
     \<lparr>weak_heap = None, weak_heap_refs = Map.empty, weak_heap_image_infos = Map.empty,
      uid = u, is_frame_reemitted = None, frame_name = None, frame_count = None,
      frame_num = None, frame_fps = None, frame_timestamp = None,
      merged_frame_name = None, face_mark_list = []\<rparr>"

text \<open>
  \<open>__getstate__\<close>: a copy of the instance dictionary whose \<open>_weak_heap\<close> entry is \<open>None\<close>.
  The dictionary has the fields of the record as its keys, so the state is a record too.
\<close>

definition getstate :: "('r, 'fm) BackendConnectionData \<Rightarrow> ('r, 'fm) BackendConnectionData" where
  "getstate self = self\<lparr>weak_heap := None\<rparr>"

definition assign_weak_heap ::
  "('r, 'fm) BackendConnectionData \<Rightarrow> nat \<Rightarrow> ('r, 'fm) BackendConnectionData" where
  "assign_weak_heap self h = self\<lparr>weak_heap := Some h\<rparr>"

text \<open>
  \<open>set_file\<close>: the right-hand side \<open>self._weak_heap.add_data(data)\<close> is evaluated first; on an
  envelope with no heap it raises before the dictionary is touched.
\<close>

definition set_file ::
  "('h, 'r) MPWeakHeap \<Rightarrow> string \<Rightarrow> bytes \<Rightarrow> ('r, 'fm) BackendConnectionData \<times> 'h heaps \<Rightarrow>
     (py_error + unit) \<times> ('r, 'fm) BackendConnectionData \<times> 'h heaps" where
  "set_file ops name d st =
     (case st of (self, hs) \<Rightarrow>
        (case weak_heap self of
           None \<Rightarrow> (Inl AttributeError, (self, hs))
         | Some h \<Rightarrow>
             (case add_data ops (hs h) d of (ref, heap') \<Rightarrow>
                (Inr (), (self\<lparr>weak_heap_refs := (weak_heap_refs self)(name \<mapsto> ref)\<rparr>,
                          hs(h := heap'))))))"

definition get_file ::
  "('h, 'r) MPWeakHeap \<Rightarrow> string \<Rightarrow> ('r, 'fm) BackendConnectionData \<times> 'h heaps \<Rightarrow>
     py_error + bytes option" where
  "get_file ops name st =
     (case st of (self, hs) \<Rightarrow>
        (case weak_heap_refs self name of
           Some ref \<Rightarrow>
             (case weak_heap self of
                None \<Rightarrow> Inl AttributeError
              | Some h \<Rightarrow> Inr (get_data ops (hs h) ref))
         | None \<Rightarrow> Inr None))"

text \<open>
  \<open>set_image\<close>: the argument \<open>image.data\<close> is evaluated before \<open>set_file\<close> is called; where
  numpy refuses the export, the call raises with envelope and heap untouched.
\<close>

definition set_image ::
  "('h, 'r) MPWeakHeap \<Rightarrow> string \<Rightarrow> ndarray \<Rightarrow> ('r, 'fm) BackendConnectionData \<times> 'h heaps \<Rightarrow>
     (py_error + unit) \<times> ('r, 'fm) BackendConnectionData \<times> 'h heaps" where
  "set_image ops name img st =
     (case ndarray_data img of
        Inl e \<Rightarrow> (Inl e, st)
      | Inr d \<Rightarrow>
          (case set_file ops name d st of
             (Inl e, st') \<Rightarrow> (Inl e, st')
           | (Inr _, (self, hs)) \<Rightarrow>
               (Inr (), (self\<lparr>weak_heap_image_infos :=
                                  (weak_heap_image_infos self)(name \<mapsto> (shape img, dtype img))\<rparr>,
                         hs))))"

text \<open>
  \<open>get_image\<close> takes a name or \<open>None\<close> (the argument \<open>None\<close> is tested first). The file is
  fetched before the two results are tested together.
\<close>

definition get_image ::
  "('h, 'r) MPWeakHeap \<Rightarrow> string option \<Rightarrow> ('r, 'fm) BackendConnectionData \<times> 'h heaps \<Rightarrow>
     py_error + ndarray option" where
  "get_image ops name st =
     (case name of
        None \<Rightarrow> Inr None
      | Some n \<Rightarrow>
          (let image_info = weak_heap_image_infos (fst st) n in
             (case get_file ops n st of
                Inl e \<Rightarrow> Inl e
              | Inr buffer \<Rightarrow>
                  (case (image_info, buffer) of
                     (Some (sh, dt), Some b) \<Rightarrow>
                       (case np_ndarray sh dt b of
                          Inl e \<Rightarrow> Inl e
                        | Inr a \<Rightarrow> Inr (Some a))
                   | _ \<Rightarrow> Inr None))))"

definition add_face_mark ::
  "('r, 'fm) BackendConnectionData \<Rightarrow> 'fm py_value \<Rightarrow>
     (py_error + unit) \<times> ('r, 'fm) BackendConnectionData" where
  "add_face_mark self face_mark =
     (if \<not> isinstance_FaceMark face_mark
      then (Inl (ValueError ''face_mark must be an instance of FaceMark''), self)
      else (Inr (), self\<lparr>face_mark_list := face_mark_list self @ [face_mark]\<rparr>))"

text \<open>The scalar fields have plain setters; the getters are the record's selectors.\<close>

definition set_is_frame_reemitted ::
  "('r, 'fm) BackendConnectionData \<Rightarrow> bool \<Rightarrow> ('r, 'fm) BackendConnectionData" where
  "set_is_frame_reemitted self v = self\<lparr>is_frame_reemitted := Some v\<rparr>"

definition set_frame_name ::
  "('r, 'fm) BackendConnectionData \<Rightarrow> string \<Rightarrow> ('r, 'fm) BackendConnectionData" where
  "set_frame_name self v = self\<lparr>frame_name := Some v\<rparr>"

definition set_frame_count ::
  "('r, 'fm) BackendConnectionData \<Rightarrow> int \<Rightarrow> ('r, 'fm) BackendConnectionData" where
  "set_frame_count self v = self\<lparr>frame_count := Some v\<rparr>"

definition set_frame_num ::
  "('r, 'fm) BackendConnectionData \<Rightarrow> int \<Rightarrow> ('r, 'fm) BackendConnectionData" where
  "set_frame_num self v = self\<lparr>frame_num := Some v\<rparr>"

definition set_frame_fps ::
  "('r, 'fm) BackendConnectionData \<Rightarrow> real \<Rightarrow> ('r, 'fm) BackendConnectionData" where
  "set_frame_fps self v = self\<lparr>frame_fps := Some v\<rparr>"

definition set_frame_timestamp ::
  "('r, 'fm) BackendConnectionData \<Rightarrow> real \<Rightarrow> ('r, 'fm) BackendConnectionData" where
  "set_frame_timestamp self v = self\<lparr>frame_timestamp := Some v\<rparr>"

definition set_merged_frame_name ::
  "('r, 'fm) BackendConnectionData \<Rightarrow> string \<Rightarrow> ('r, 'fm) BackendConnectionData" where
  "set_merged_frame_name self v = self\<lparr>merged_frame_name := Some v\<rparr>"

subsection \<open>Sequences of calls on one envelope\<close>

text \<open>
  The calls that change an envelope, as data, and the state a sequence of them leaves. A call
  that raises leaves the state it had reached, and the caller goes on.
\<close>

datatype 'fm bcd_call =
    Assign_weak_heap nat
  | Set_file string bytes
  | Set_image string ndarray
  | Set_is_frame_reemitted bool
  | Set_frame_name string
  | Set_frame_count int
  | Set_frame_num int
  | Set_frame_fps real
  | Set_frame_timestamp real
  | Set_merged_frame_name string
  | Add_face_mark "'fm py_value"

fun do_call ::
  "('h, 'r) MPWeakHeap \<Rightarrow> 'fm bcd_call \<Rightarrow> ('r, 'fm) BackendConnectionData \<times> 'h heaps \<Rightarrow>
     ('r, 'fm) BackendConnectionData \<times> 'h heaps" where
  "do_call ops (Assign_weak_heap h) (self, hs) = (assign_weak_heap self h, hs)"
| "do_call ops (Set_file n d) st = snd (set_file ops n d st)"
| "do_call ops (Set_image n a) st = snd (set_image ops n a st)"
| "do_call ops (Set_is_frame_reemitted v) (self, hs) = (set_is_frame_reemitted self v, hs)"
| "do_call ops (Set_frame_name v) (self, hs) = (set_frame_name self v, hs)"
| "do_call ops (Set_frame_count v) (self, hs) = (set_frame_count self v, hs)"
| "do_call ops (Set_frame_num v) (self, hs) = (set_frame_num self v, hs)"
| "do_call ops (Set_frame_fps v) (self, hs) = (set_frame_fps self v, hs)"
| "do_call ops (Set_frame_timestamp v) (self, hs) = (set_frame_timestamp self v, hs)"
| "do_call ops (Set_merged_frame_name v) (self, hs) = (set_merged_frame_name self v, hs)"
| "do_call ops (Add_face_mark v) (self, hs) = (snd (add_face_mark self v), hs)"

fun do_calls ::
  "('h, 'r) MPWeakHeap \<Rightarrow> 'fm bcd_call list \<Rightarrow> ('r, 'fm) BackendConnectionData \<times> 'h heaps \<Rightarrow>
     ('r, 'fm) BackendConnectionData \<times> 'h heaps" where
  "do_calls ops [] st = st"
| "do_calls ops (c # cs) st = do_calls ops cs (do_call ops c st)"

text \<open>Whether a call is \<open>set_file\<close> on the name, directly or through \<open>set_image\<close>.\<close>

fun calls_set_file :: "string \<Rightarrow> 'fm bcd_call \<Rightarrow> bool" where
  "calls_set_file name (Set_file n _) = (n = name)"
| "calls_set_file name (Set_image n _) = (n = name)"
| "calls_set_file name _ = False"

section \<open>Serialization\<close>

text \<open>
  \<open>pickle.dumps\<close> writes the class and the state that \<open>__getstate__\<close> returns;
  \<open>pickle.loads\<close> makes an instance whose dictionary is that state (the class has no
  \<open>__setstate__\<close>). The bytes in between are opaque: a pickle is the state it encodes.
\<close>

datatype ('r, 'fm) pickled = Pickled "('r, 'fm) BackendConnectionData"

definition pickle_dumps :: "('r, 'fm) BackendConnectionData \<Rightarrow> ('r, 'fm) pickled" where
  "pickle_dumps bcd = Pickled (getstate bcd)"

fun pickle_loads :: "('r, 'fm) pickled \<Rightarrow> ('r, 'fm) BackendConnectionData" where
  "pickle_loads (Pickled d) = d"

section \<open>The ring and BackendConnection\<close>

text \<open>
  Modelled from the spec: \<open>lib_mp.MPSPSCMRRingData\<close> is imported, not defined, by the file.
  The ring is a table of \<open>table_size\<close> slots; a slot holds a record with the sequence number
  it was written under. \<open>write_id\<close> is the shared write cursor and \<open>read_id\<close> the cursor of the
  reader that holds this object. The three constructor arguments are kept as they are given.
\<close>

record 'b MPSPSCMRRingData =
  table_size :: int
  heap_size_mb :: int
  multi_producer :: bool
  write_id :: int
  read_id :: int
  table :: "int \<rightharpoonup> int \<times> 'b"

text \<open>Modelled from the spec: a new ring is empty, both cursors at the start.\<close>

definition rd_init :: "int \<Rightarrow> int \<Rightarrow> bool \<Rightarrow> 'b MPSPSCMRRingData" where
  "rd_init ts hs mp =
     \<lparr>table_size = ts, heap_size_mb = hs, multi_producer = mp,
      write_id = 0, read_id = 0, table = Map.empty\<rparr>"

text \<open>
  Modelled from the spec: \<open>write\<close> puts the record into the next slot in circular order under
  the next sequence number and advances the write cursor; what the slot held is overwritten.
\<close>

definition rd_write :: "'b MPSPSCMRRingData \<Rightarrow> 'b \<Rightarrow> 'b MPSPSCMRRingData" where
  "rd_write r b =
     r\<lparr>table := (table r)(write_id r mod table_size r \<mapsto> (write_id r, b)),
       write_id := write_id r + 1\<rparr>"

text \<open>
  Modelled from the spec: \<open>get_by_id\<close> is random access by sequence number, absent when
  the slot holds another sequence number or nothing.
\<close>

definition rd_get_by_id :: "'b MPSPSCMRRingData \<Rightarrow> int \<Rightarrow> 'b option" where
  "rd_get_by_id r i =
     (case table r (i mod table_size r) of
        None \<Rightarrow> None
      | Some (j, b) \<Rightarrow> if j = i then Some b else None)"

text \<open>
  Modelled from the spec: \<open>read\<close> returns the next unread record and advances the reader's
  cursor; records overwritten before the cursor reached them are skipped; with nothing
  unread the result is absent. The wait up to the timeout is for another process to write;
  in the sequential model no one does, and the result is that of the poll.
\<close>

definition rd_read :: "'b MPSPSCMRRingData \<Rightarrow> 'b option \<times> 'b MPSPSCMRRingData" where
  "rd_read r =
     (let start = max (read_id r) (write_id r - table_size r) in
        if write_id r \<le> start then (None, r)
        else (rd_get_by_id r start, r\<lparr>read_id := start + 1\<rparr>))"

text \<open>Modelled from the spec: the two cursors and the readiness test.\<close>

definition rd_get_write_id :: "'b MPSPSCMRRingData \<Rightarrow> int" where
  "rd_get_write_id r = write_id r"

definition rd_get_read_id :: "'b MPSPSCMRRingData \<Rightarrow> int" where
  "rd_get_read_id r = read_id r"

definition rd_wait_for_read :: "'b MPSPSCMRRingData \<Rightarrow> bool" where
  "rd_wait_for_read r = (read_id r < write_id r)"

text \<open>
  \<open>BackendConnection\<close> holds one ring, built with a table of 8192 slots, a heap of 8 MB
  and the caller's \<open>multi_producer\<close>, which defaults to \<open>False\<close>.
\<close>

record ('r, 'fm) BackendConnection =
  rd :: "('r, 'fm) pickled MPSPSCMRRingData"

definition BackendConnection_init :: "bool \<Rightarrow> ('r, 'fm) BackendConnection" where
  "BackendConnection_init mp = \<lparr>rd = rd_init 8192 8 mp\<rparr>"

definition BackendConnection_init_default :: "('r, 'fm) BackendConnection" where
  "BackendConnection_init_default = BackendConnection_init False"

text \<open>\<open>write\<close> and \<open>read\<close> of the connection (\<open>write\<close> is a reserved word here).\<close>

definition write_bcd ::
  "('r, 'fm) BackendConnection \<Rightarrow> ('r, 'fm) BackendConnectionData \<Rightarrow> ('r, 'fm) BackendConnection" where
  "write_bcd self bcd = self\<lparr>rd := rd_write (rd self) (pickle_dumps bcd)\<rparr>"

definition read_bcd ::
  "('r, 'fm) BackendConnection \<Rightarrow>
     ('r, 'fm) BackendConnectionData option \<times> ('r, 'fm) BackendConnection" where
  "read_bcd self =
     (case rd_read (rd self) of
        (Some b, r') \<Rightarrow> (Some (pickle_loads b), self\<lparr>rd := r'\<rparr>)
      | (None, r') \<Rightarrow> (None, self\<lparr>rd := r'\<rparr>))"

definition get_write_id :: "('r, 'fm) BackendConnection \<Rightarrow> int" where
  "get_write_id self = rd_get_write_id (rd self)"

definition get_by_id ::
  "('r, 'fm) BackendConnection \<Rightarrow> int \<Rightarrow> ('r, 'fm) BackendConnectionData option" where
  "get_by_id self i =
     (case rd_get_by_id (rd self) i of
        Some b \<Rightarrow> Some (pickle_loads b)
      | None \<Rightarrow> None)"

definition wait_for_read :: "('r, 'fm) BackendConnection \<Rightarrow> bool" where
  "wait_for_read self = rd_wait_for_read (rd self)"

definition is_full_read :: "('r, 'fm) BackendConnection \<Rightarrow> int \<Rightarrow> bool" where
  "is_full_read self buffer_size =
     (rd_get_read_id (rd self) \<ge> rd_get_write_id (rd self) - buffer_size)"

text \<open>The configuration a connection was built with.\<close>

definition config :: "('r, 'fm) BackendConnection \<Rightarrow> int \<times> int \<times> bool" where
  "config self = (table_size (rd self), heap_size_mb (rd self), multi_producer (rd self))"

text \<open>
  The lifetime of a connection: the calls that change it, in order. The other methods
  (\<open>get_write_id\<close>, \<open>get_by_id\<close>, \<open>wait_for_read\<close>, \<open>is_full_read\<close>) only read.
\<close>

datatype ('r, 'fm) conn_call =
    Write_call "('r, 'fm) BackendConnectionData"
  | Read_call

fun do_conn_call :: "('r, 'fm) conn_call \<Rightarrow> ('r, 'fm) BackendConnection \<Rightarrow> ('r, 'fm) BackendConnection" where
  "do_conn_call (Write_call bcd) c = write_bcd c bcd"
| "do_conn_call Read_call c = snd (read_bcd c)"

fun do_conn_calls :: "('r, 'fm) conn_call list \<Rightarrow> ('r, 'fm) BackendConnection \<Rightarrow> ('r, 'fm) BackendConnection" where
  "do_conn_calls [] c = c"
| "do_conn_calls (x # xs) c = do_conn_calls xs (do_conn_call x c)"

section \<open>BackendSignal\<close>

text \<open>
  \<open>multiprocessing.Event\<close> is a flag, clear when it is made. \<open>recv\<close> reads the flag and
  clears it when it was set.
\<close>

record BackendSignal =
  ev :: bool

definition BackendSignal_init :: BackendSignal where
  "BackendSignal_init = \<lparr>ev = False\<rparr>"

definition send :: "BackendSignal \<Rightarrow> BackendSignal" where
  "send self = self\<lparr>ev := True\<rparr>"

definition recv :: "BackendSignal \<Rightarrow> bool \<times> BackendSignal" where
  "recv self =
     (let is_set = ev self in
        if is_set then (is_set, self\<lparr>ev := False\<rparr>) else (is_set, self))"

section \<open>A heap to run the envelope on\<close>

text \<open>
  Modelled from the spec: the heap whose methods the envelope calls is not in the file. The
  spec's SharedHeap is an arena of \<open>sh_capacity\<close> bytes with one circular write offset. A
  handle is offset, size and epoch; an entry is the bytes written at an offset, with their
  size and the epoch of the slot.
\<close>

record HeapHandle =
  hh_offset :: nat
  hh_size :: nat
  hh_epoch :: nat

record HeapEntry =
  he_bytes :: bytes
  he_size :: nat
  he_epoch :: nat

record SharedHeap =
  sh_capacity :: nat
  sh_offset :: nat
  sh_entries :: "nat \<rightharpoonup> HeapEntry"

text \<open>Modelled from the spec: a new arena is empty and writes at offset 0.\<close>

definition sh_init :: "nat \<Rightarrow> SharedHeap" where
  "sh_init c = \<lparr>sh_capacity = c, sh_offset = 0, sh_entries = Map.empty\<rparr>"

text \<open>Modelled from the spec: whether two byte ranges of the arena share a byte.\<close>

definition overlaps :: "nat \<Rightarrow> nat \<Rightarrow> nat \<Rightarrow> nat \<Rightarrow> bool" where
  "overlaps a n b m = (0 < n \<and> 0 < m \<and> a < b + m \<and> b < a + n)"

text \<open>
  Modelled from the spec: \<open>add_data\<close> allocates at the write offset and wraps to the start
  when the blob does not fit before the end of the arena. It never blocks and never rejects:
  what the new bytes overwrite is lost, and the epoch of each slot they touch goes up by one.
\<close>

definition sh_add_data :: "SharedHeap \<Rightarrow> bytes \<Rightarrow> HeapHandle \<times> SharedHeap" where
  "sh_add_data h d =
     (let n = length d;
          off = (if sh_capacity h < sh_offset h + n then 0 else sh_offset h);
          epoch = (case sh_entries h off of None \<Rightarrow> 0 | Some e \<Rightarrow> he_epoch e + 1);
          bumped = (\<lambda>a. case sh_entries h a of
                            None \<Rightarrow> None
                          | Some e \<Rightarrow>
                              if overlaps off n a (he_size e)
                              then Some (e\<lparr>he_epoch := he_epoch e + 1\<rparr>)
                              else Some e)
      in (\<lparr>hh_offset = off, hh_size = n, hh_epoch = epoch\<rparr>,
          h\<lparr>sh_offset := off + n,
            sh_entries := bumped(off \<mapsto> \<lparr>he_bytes = d, he_size = n, he_epoch = epoch\<rparr>)\<rparr>))"

text \<open>
  Modelled from the spec: \<open>get_data\<close> is absent when nothing was written at the handle's
  offset or the slot's epoch is not the handle's.
\<close>

definition sh_get_data :: "SharedHeap \<Rightarrow> HeapHandle \<Rightarrow> bytes option" where
  "sh_get_data h r =
     (case sh_entries h (hh_offset r) of
        None \<Rightarrow> None
      | Some e \<Rightarrow> if he_epoch e = hh_epoch r then Some (he_bytes e) else None)"

definition SharedHeap_ops :: "(SharedHeap, HeapHandle) MPWeakHeap" where
  "SharedHeap_ops = \<lparr>add_data = sh_add_data, get_data = sh_get_data\<rparr>"

section \<open>The timing side channel of host and worker\<close>




















section \<open>Concrete data\<close>





definition heaps0 :: "SharedHeap heaps" where
  "heaps0 = (\<lambda>_. sh_init 16)"

definition producer_bcd :: "(HeapHandle, unit) BackendConnectionData" where
  "producer_bcd = assign_weak_heap (BackendConnectionData_init 1) 0"

definition file_bcd :: "(HeapHandle, unit) BackendConnectionData" where
  "file_bcd = fst (snd (set_file SharedHeap_ops ''a'' [1, 2, 3] (producer_bcd, heaps0)))"

definition received_bcd :: "(HeapHandle, unit) BackendConnectionData" where
  "received_bcd = pickle_loads (pickle_dumps file_bcd)"


definition empty_file_state :: "(HeapHandle, unit) BackendConnectionData \<times> SharedHeap heaps" where
  "empty_file_state = snd (set_file SharedHeap_ops ''e'' [] (producer_bcd, heaps0))"

section \<open>The averages a worker is to report\<close>



section \<open>The envelope's methods, case by case\<close>

lemma set_file_bound:
  "weak_heap e = Some h \<Longrightarrow>
   set_file ops name d (e, hs) =
     (Inr (), (e\<lparr>weak_heap_refs := (weak_heap_refs e)(name \<mapsto> fst (add_data ops (hs h) d))\<rparr>,
               hs(h := snd (add_data ops (hs h) d))))"
  by (simp add: set_file_def split: prod.splits)

lemma set_file_unbound:
  "weak_heap e = None \<Longrightarrow> set_file ops name d (e, hs) = (Inl AttributeError, (e, hs))"
  by (simp add: set_file_def)

lemma set_image_bound:
  "weak_heap e = Some h \<Longrightarrow> exports_buffer (dtype img) \<Longrightarrow>
   set_image ops name img (e, hs) =
     (Inr (), (e\<lparr>weak_heap_refs := (weak_heap_refs e)(name \<mapsto> fst (add_data ops (hs h) (data img))),
                 weak_heap_image_infos := (weak_heap_image_infos e)(name \<mapsto> (shape img, dtype img))\<rparr>,
               hs(h := snd (add_data ops (hs h) (data img)))))"
  by (simp add: set_image_def ndarray_data_def set_file_bound)

lemma set_image_unbound:
  "weak_heap e = None \<Longrightarrow> exports_buffer (dtype img) \<Longrightarrow>
   set_image ops name img (e, hs) = (Inl AttributeError, (e, hs))"
  by (simp add: set_image_def ndarray_data_def set_file_unbound)

lemma set_image_no_export:
  "\<not> exports_buffer (dtype img) \<Longrightarrow>
   set_image ops name img st = (Inl (ValueError ''cannot include dtype in a buffer''), st)"
  by (simp add: set_image_def ndarray_data_def)

lemma get_file_bound:
  "weak_heap e = Some h \<Longrightarrow> weak_heap_refs e name = Some r \<Longrightarrow>
   get_file ops name (e, hs) = Inr (get_data ops (hs h) r)"
  by (simp add: get_file_def)

lemma get_file_unset: "weak_heap_refs e name = None \<Longrightarrow> get_file ops name (e, hs) = Inr None"
  by (simp add: get_file_def)

lemma get_file_unbound:
  "weak_heap e = None \<Longrightarrow> weak_heap_refs e name = Some r \<Longrightarrow>
   get_file ops name (e, hs) = Inl AttributeError"
  by (simp add: get_file_def)

lemma get_image_None: "get_image ops None st = Inr None"
  by (simp add: get_image_def)


lemma get_image_file_error:
  "get_file ops name (e, hs) = Inl err \<Longrightarrow> get_image ops (Some name) (e, hs) = Inl err"
  by (simp add: get_image_def)

lemma get_image_no_info:
  "weak_heap_image_infos e name = None \<Longrightarrow> get_file ops name (e, hs) = Inr b \<Longrightarrow>
   get_image ops (Some name) (e, hs) = Inr None"
  by (simp add: get_image_def)


text \<open>On the arena of the spec a handle resolves to its blob right after it was issued.\<close>

lemma sh_fresh_handle:
  "sh_get_data (snd (sh_add_data h d)) (fst (sh_add_data h d)) = Some d"
  by (simp add: sh_add_data_def sh_get_data_def Let_def)

lemma producer_bound: "weak_heap producer_bcd = Some 0"
  by (simp add: producer_bcd_def assign_weak_heap_def)



lemma file_bcd_eq:
  "file_bcd = producer_bcd\<lparr>weak_heap_refs :=
      [''a'' \<mapsto> \<lparr>hh_offset = 0, hh_size = 3, hh_epoch = 0\<rparr>]\<rparr>"
  by (simp add: file_bcd_def set_file_bound producer_bound SharedHeap_ops_def heaps0_def
      sh_add_data_def sh_init_def Let_def)
     (simp add: producer_bcd_def assign_weak_heap_def BackendConnectionData_init_def
        numeral_3_eq_3)

section \<open>The lag window of a connection\<close>

text \<open>
  C1. For every connection and every \<open>buffer_size\<close>, \<open>is_full_read\<close> is true exactly when
  the reader's \<open>read_id\<close> is at least \<open>write_id - buffer_size\<close>, and false exactly when it is
  below. At \<open>buffer_size = 0\<close> that is: the reader has caught up with the writer; at
  \<open>buffer_size = table_size\<close>: the reader lags by at most a full table. The ids and the
  buffer size are Python integers, so the subtraction is exact for every value, negative
  ones too.
\<close>

theorem is_full_read_iff:
  "is_full_read c b = (read_id (rd c) \<ge> write_id (rd c) - b)
   \<and> (\<not> is_full_read c b) = (read_id (rd c) < write_id (rd c) - b)
   \<and> is_full_read c 0 = (write_id (rd c) \<le> read_id (rd c))
   \<and> is_full_read c (table_size (rd c)) =
       (write_id (rd c) - read_id (rd c) \<le> table_size (rd c))"
  by (auto simp: is_full_read_def rd_get_read_id_def rd_get_write_id_def)

section \<open>The pickled state\<close>

text \<open>
  C2. For every envelope, whatever its fields hold, the state that is pickled when the
  envelope is written to a connection has no heap: \<open>_weak_heap\<close> is \<open>None\<close> in it, and every
  other field, the mapping from names to handles among them, is the envelope's own. The
  record that \<open>write\<close> puts into the ring under the current \<open>write_id\<close> is the pickle of that
  state.
\<close>

theorem getstate_excludes_heap:
  "weak_heap (getstate e) = None
   \<and> weak_heap_refs (getstate e) = weak_heap_refs e
   \<and> weak_heap_image_infos (getstate e) = weak_heap_image_infos e
   \<and> uid (getstate e) = uid e
   \<and> is_frame_reemitted (getstate e) = is_frame_reemitted e
   \<and> frame_name (getstate e) = frame_name e
   \<and> frame_count (getstate e) = frame_count e
   \<and> frame_num (getstate e) = frame_num e
   \<and> frame_fps (getstate e) = frame_fps e
   \<and> frame_timestamp (getstate e) = frame_timestamp e
   \<and> merged_frame_name (getstate e) = merged_frame_name e
   \<and> face_mark_list (getstate e) = face_mark_list e
   \<and> (getstate e)\<lparr>weak_heap := weak_heap e\<rparr> = e
   \<and> pickle_dumps e = Pickled (getstate e)
   \<and> rd_get_by_id (rd (write_bcd c e)) (get_write_id c) = Some (Pickled (getstate e))
   \<and> get_by_id (write_bcd c e) (get_write_id c) = Some (getstate e)"
  by (simp add: getstate_def pickle_dumps_def write_bcd_def rd_write_def rd_get_by_id_def
      get_write_id_def rd_get_write_id_def get_by_id_def)

section \<open>Validation of face marks\<close>

text \<open>
  C3. For every envelope and every value that is not an instance of \<open>FaceMark\<close>,
  \<open>add_face_mark\<close> raises \<open>ValueError\<close> at the call and leaves the envelope, its
  \<open>face_mark_list\<close> included, as it was; for every instance of \<open>FaceMark\<close> it returns
  normally and the list is the old one with the value appended at its end.
\<close>

theorem add_face_mark_validates:
  "(\<not> isinstance_FaceMark v \<longrightarrow>
      add_face_mark e v = (Inl (ValueError ''face_mark must be an instance of FaceMark''), e))
   \<and> (isinstance_FaceMark v \<longrightarrow>
      add_face_mark e v = (Inr (), e\<lparr>face_mark_list := face_mark_list e @ [v]\<rparr>))"
  by (simp add: add_face_mark_def)

theorem add_face_mark_validates_witness:
  "\<not> isinstance_FaceMark (PyInt 7 :: unit py_value)
   \<and> add_face_mark producer_bcd (PyInt 7)
       = (Inl (ValueError ''face_mark must be an instance of FaceMark''), producer_bcd)
   \<and> isinstance_FaceMark (PyFaceMark ())
   \<and> face_mark_list (snd (add_face_mark producer_bcd (PyFaceMark ()))) = [PyFaceMark ()]"
  using add_face_mark_validates [of "PyInt 7" producer_bcd]
        add_face_mark_validates [of "PyFaceMark ()" producer_bcd]
  by (simp add: producer_bcd_def assign_weak_heap_def BackendConnectionData_init_def)

section \<open>Storing and fetching an image\<close>




section \<open>An envelope without its heap\<close>

text \<open>
  C5. For every envelope that a receiving process gets by unpickling, and every name whose
  handle is recorded in it: the envelope has no heap; \<open>get_file\<close> and \<open>get_image\<close> of the
  name raise (\<open>AttributeError\<close>, from the method looked up on \<open>None\<close>) whatever heaps the
  process holds, so neither returns any bytes; and once \<open>assign_weak_heap\<close> has bound a heap
  of the process, \<open>get_file\<close> resolves the handle in that heap. The envelope read from a
  connection after one write is such an unpickled envelope.
\<close>

theorem unbound_envelope_fails:
  assumes "weak_heap_refs e name = Some r"
  shows "weak_heap (pickle_loads (pickle_dumps e)) = None
     \<and> fst (read_bcd (write_bcd (BackendConnection_init mp) e)) = Some (pickle_loads (pickle_dumps e))
     \<and> get_file ops name (pickle_loads (pickle_dumps e), hs) = Inl AttributeError
     \<and> get_image ops (Some name) (pickle_loads (pickle_dumps e), hs) = Inl AttributeError
     \<and> get_file ops name (assign_weak_heap (pickle_loads (pickle_dumps e)) h, hs)
         = Inr (get_data ops (hs h) r)"
proof -
  let ?e = "pickle_loads (pickle_dumps e)"
  have e: "?e = e\<lparr>weak_heap := None\<rparr>" by (simp add: pickle_dumps_def getstate_def)
  have 1: "weak_heap ?e = None" by (simp add: e)
  have 2: "fst (read_bcd (write_bcd (BackendConnection_init mp) e)) = Some ?e"
    by (simp add: read_bcd_def write_bcd_def BackendConnection_init_def rd_init_def rd_write_def
        rd_read_def rd_get_by_id_def Let_def)
  have 3: "get_file ops name (?e, hs) = Inl AttributeError"
    using assms by (simp add: e get_file_unbound)
  have 4: "get_image ops (Some name) (?e, hs) = Inl AttributeError"
    using 3 by (rule get_image_file_error)
  have 5: "get_file ops name (assign_weak_heap ?e h, hs) = Inr (get_data ops (hs h) r)"
    using assms by (simp add: e assign_weak_heap_def get_file_bound)
  from 1 2 3 4 5 show ?thesis by blast
qed

theorem unbound_envelope_fails_witness:
  "weak_heap_refs file_bcd ''a'' = Some \<lparr>hh_offset = 0, hh_size = 3, hh_epoch = 0\<rparr>
   \<and> get_file SharedHeap_ops ''a'' (received_bcd, heaps0) = Inl AttributeError
   \<and> get_image SharedHeap_ops (Some ''a'') (received_bcd, heaps0) = Inl AttributeError"
proof -
  have r: "weak_heap_refs file_bcd ''a'' = Some \<lparr>hh_offset = 0, hh_size = 3, hh_epoch = 0\<rparr>"
    by (simp add: file_bcd_eq)
  from unbound_envelope_fails [where ops = SharedHeap_ops and hs = heaps0, OF r] r
  show ?thesis by (simp add: received_bcd_def)
qed

section \<open>The signal\<close>

lemma send_funpow: "0 < N \<Longrightarrow> (send ^^ N) s = send s"
  by (induction N) (auto simp: send_def)

text \<open>
  C7. For every signal and every \<open>N \<ge> 1\<close>: \<open>N\<close> calls of \<open>send\<close> leave the signal as one
  call does; the \<open>recv\<close> that follows returns true, and a second \<open>recv\<close> with no \<open>send\<close> in
  between returns false. \<open>recv\<close> returns whether the flag was set and leaves it clear. The
  calls are taken one after the other, as one process makes them.
\<close>

theorem signal_sends_collapse:
  "0 < N \<Longrightarrow>
     (send ^^ N) s = send s
     \<and> fst (recv ((send ^^ N) s)) = True
     \<and> fst (recv (snd (recv ((send ^^ N) s)))) = False
     \<and> recv s = (ev s, s\<lparr>ev := False\<rparr>)"
  by (simp add: send_funpow) (simp add: send_def recv_def Let_def)

theorem signal_sends_collapse_witness:
  "(0::nat) < 3
   \<and> fst (recv (send (send (send BackendSignal_init)))) = True
   \<and> fst (recv (snd (recv (send (send (send BackendSignal_init)))))) = False"
proof -
  have pos: "(0::nat) < 3" by simp
  have "fst (recv ((send ^^ 3) BackendSignal_init)) = True
      \<and> fst (recv (snd (recv ((send ^^ 3) BackendSignal_init)))) = False"
    using signal_sends_collapse [OF pos, of BackendSignal_init] by blast
  then show ?thesis by (simp add: numeral_3_eq_3)
qed

section \<open>The configuration of a connection\<close>

lemma config_write: "config (write_bcd c e) = config c"
  by (simp add: config_def write_bcd_def rd_write_def)

lemma config_read: "config (snd (read_bcd c)) = config c"
  by (simp add: config_def read_bcd_def rd_read_def Let_def split: prod.splits option.splits if_splits)

lemma config_call: "config (do_conn_call x c) = config c"
  by (cases x) (simp_all add: config_write config_read)

lemma config_calls: "config (do_conn_calls xs c) = config c"
  by (induction xs arbitrary: c) (simp_all add: config_call)

text \<open>
  C8. The constructor of a connection hands the ring its configuration: a table of 8192
  slots, a heap of 8 MB, and the \<open>multi_producer\<close> flag the caller gave (\<open>False\<close> when the
  caller gave none). No call on the connection changes the three: not \<open>write\<close>, not \<open>read\<close>,
  and so no sequence of calls in the life of the connection.
\<close>

theorem connection_config_fixed:
  "config (BackendConnection_init mp) = (8192, 8, mp)
   \<and> config BackendConnection_init_default = (8192, 8, False)
   \<and> config (write_bcd c e) = config c
   \<and> config (snd (read_bcd c)) = config c
   \<and> config (do_conn_calls xs (BackendConnection_init mp)) = (8192, 8, mp)"
  by (simp add: config_calls config_write config_read)
     (simp add: config_def BackendConnection_init_def BackendConnection_init_default_def rd_init_def)

section \<open>One namespace for files and images\<close>





section \<open>Absent results\<close>

lemma do_call_refs:
  "\<not> calls_set_file name c \<Longrightarrow>
   weak_heap_refs (fst (do_call ops c st)) name = weak_heap_refs (fst st) name"
proof (cases st)
  case (Pair e hs)
  assume n: "\<not> calls_set_file name c"
  show ?thesis
  proof (cases c)
    case (Set_file n d)
    with n Pair show ?thesis
      by (cases "weak_heap e") (auto simp: set_file_bound set_file_unbound)
  next
    case (Set_image n a)
    with n Pair show ?thesis
      by (cases "weak_heap e"; cases "exports_buffer (dtype a)")
         (auto simp: set_image_bound set_image_unbound set_image_no_export)
  next
    case (Add_face_mark v)
    with Pair show ?thesis by (simp add: add_face_mark_def)
  qed (simp_all add: Pair assign_weak_heap_def set_is_frame_reemitted_def set_frame_name_def
        set_frame_count_def set_frame_num_def set_frame_fps_def set_frame_timestamp_def
        set_merged_frame_name_def)
qed

lemma do_call_infos:
  "\<not> calls_set_file name c \<Longrightarrow>
   weak_heap_image_infos (fst (do_call ops c st)) name = weak_heap_image_infos (fst st) name"
proof (cases st)
  case (Pair e hs)
  assume n: "\<not> calls_set_file name c"
  show ?thesis
  proof (cases c)
    case (Set_file n d)
    with n Pair show ?thesis
      by (cases "weak_heap e") (auto simp: set_file_bound set_file_unbound)
  next
    case (Set_image n a)
    with n Pair show ?thesis
      by (cases "weak_heap e"; cases "exports_buffer (dtype a)")
         (auto simp: set_image_bound set_image_unbound set_image_no_export)
  next
    case (Add_face_mark v)
    with Pair show ?thesis by (simp add: add_face_mark_def)
  qed (simp_all add: Pair assign_weak_heap_def set_is_frame_reemitted_def set_frame_name_def
        set_frame_count_def set_frame_num_def set_frame_fps_def set_frame_timestamp_def
        set_merged_frame_name_def)
qed

lemma do_calls_refs:
  "\<forall>c\<in>set cs. \<not> calls_set_file name c \<Longrightarrow>
   weak_heap_refs (fst (do_calls ops cs st)) name = weak_heap_refs (fst st) name"
  by (induction cs arbitrary: st) (simp_all add: do_call_refs)

lemma do_calls_infos:
  "\<forall>c\<in>set cs. \<not> calls_set_file name c \<Longrightarrow>
   weak_heap_image_infos (fst (do_calls ops cs st)) name = weak_heap_image_infos (fst st) name"
  by (induction cs arbitrary: st) (simp_all add: do_call_infos)

lemma never_set_absent:
  fixes ops :: "('h, 'r) MPWeakHeap" and cs :: "'fm bcd_call list"
  assumes "\<forall>c\<in>set cs. \<not> calls_set_file name c"
  shows "get_file ops name (do_calls ops cs (BackendConnectionData_init u, hs)) = Inr None
    \<and> get_image ops (Some name) (do_calls ops cs (BackendConnectionData_init u, hs)) = Inr None"
proof -
  let ?e0 = "BackendConnectionData_init u :: ('r, 'fm) BackendConnectionData"
  obtain e' hs' where st: "do_calls ops cs (?e0, hs) = (e', hs')"
    by (cases "do_calls ops cs (?e0, hs)")
  have "weak_heap_refs e' name = weak_heap_refs ?e0 name"
    using do_calls_refs [OF assms, of ops "(?e0, hs)"] st by simp
  then have r: "weak_heap_refs e' name = None"
    by (simp add: BackendConnectionData_init_def)
  have "weak_heap_image_infos e' name = weak_heap_image_infos ?e0 name"
    using do_calls_infos [OF assms, of ops "(?e0, hs)"] st by simp
  then have i: "weak_heap_image_infos e' name = None"
    by (simp add: BackendConnectionData_init_def)
  have f: "get_file ops name (e', hs') = Inr None"
    using r by (rule get_file_unset)
  from i f have "get_image ops (Some name) (e', hs') = Inr None"
    by (rule get_image_no_info)
  with f show ?thesis by (simp add: st)
qed

lemma get_image_no_info_ok:
  assumes "weak_heap_image_infos e name = None"
      and "weak_heap e \<noteq> None \<or> weak_heap_refs e name = None"
    shows "get_image ops (Some name) (e, hs) = Inr None"
proof (cases "weak_heap_refs e name")
  case None
  then show ?thesis using assms(1) by (simp add: get_image_no_info get_file_unset)
next
  case (Some r)
  with assms(2) obtain h where "weak_heap e = Some h" by auto
  with Some assms(1) show ?thesis by (simp add: get_image_no_info get_file_bound)
qed

text \<open>
  C6, as the code has it. For every envelope made by the constructor and every name on
  which \<open>set_file\<close> was never called, directly or through \<open>set_image\<close>, whatever other
  calls were made on the envelope (failed ones included), \<open>get_file\<close> of the name returns
  absent, and so does \<open>get_image\<close>; in any state, \<open>get_file\<close> of a name with no recorded
  handle returns absent. \<open>get_image\<close> returns absent when the name is \<open>None\<close>, and when no
  image metadata is recorded for the name and either the envelope is bound to a heap or no
  file handle is recorded for the name; on an envelope with no heap and a recorded file
  handle it raises instead, metadata or not. The absent result is \<open>None\<close>, which differs
  from the result for a file that was stored empty, the empty bytes.
\<close>

theorem absent_results:
  "((\<forall>c\<in>set cs. \<not> calls_set_file name c) \<longrightarrow>
      get_file ops name (do_calls ops cs (BackendConnectionData_init u, hs)) = Inr None
      \<and> get_image ops (Some name) (do_calls ops cs (BackendConnectionData_init u, hs)) = Inr None)
   \<and> (weak_heap_refs e name = None \<longrightarrow> get_file ops name (e, hs) = Inr None)
   \<and> get_image ops None (e, hs) = Inr None
   \<and> (weak_heap_image_infos e name = None
        \<and> (weak_heap e \<noteq> None \<or> weak_heap_refs e name = None) \<longrightarrow>
      get_image ops (Some name) (e, hs) = Inr None)
   \<and> (weak_heap e = None \<and> weak_heap_refs e name = Some r \<longrightarrow>
      get_image ops (Some name) (e, hs) = Inl AttributeError)
   \<and> (weak_heap e = Some h \<and> weak_heap_refs e name = Some r \<and> get_data ops (hs h) r = Some [] \<longrightarrow>
      get_file ops name (e, hs) = Inr (Some []) \<and> get_file ops name (e, hs) \<noteq> Inr None)"
  by (simp add: never_set_absent get_file_unset get_image_None get_image_no_info_ok
      get_file_bound get_file_unbound get_image_file_error)

text \<open>
  The claim as first stated (absent for every envelope whenever no metadata is recorded)
  fails on an envelope without its heap: the file is fetched before the metadata is
  tested. On the envelope a consumer unpickles after the producer's \<open>set_file\<close> under the
  name \<open>a\<close>, no metadata is recorded for \<open>a\<close>, and \<open>get_image\<close> raises.
\<close>

theorem get_image_absent_counterexample:
  "weak_heap_image_infos received_bcd ''a'' = None
   \<and> get_image SharedHeap_ops (Some ''a'') (received_bcd, heaps0) = Inl AttributeError
   \<and> get_image SharedHeap_ops (Some ''a'') (received_bcd, heaps0) \<noteq> Inr None"
  by (simp add: received_bcd_def file_bcd_eq pickle_dumps_def getstate_def get_image_def
      get_file_def producer_bcd_def assign_weak_heap_def BackendConnectionData_init_def)

theorem absent_results_witness:
  "get_file SharedHeap_ops ''a''
     (do_calls SharedHeap_ops [Assign_weak_heap 0, Set_file ''b'' [1], Set_frame_num 0]
        (BackendConnectionData_init 1 :: (HeapHandle, unit) BackendConnectionData, heaps0))
     = Inr None
   \<and> get_file SharedHeap_ops ''a'' (producer_bcd, heaps0) = Inr None
   \<and> get_image SharedHeap_ops None (producer_bcd, heaps0) = Inr None
   \<and> get_image SharedHeap_ops (Some ''a'') (producer_bcd, heaps0) = Inr None
   \<and> get_image SharedHeap_ops (Some ''a'') (pickle_loads (pickle_dumps file_bcd), heaps0)
       = Inl AttributeError
   \<and> get_file SharedHeap_ops ''e'' empty_file_state = Inr (Some [])
   \<and> get_file SharedHeap_ops ''e'' empty_file_state \<noteq> Inr None"
proof -
  let ?cs = "[Assign_weak_heap 0, Set_file ''b'' [1], Set_frame_num 0] :: unit bcd_call list"
  have nc: "\<forall>c\<in>set ?cs. \<not> calls_set_file ''a'' c" by simp
  have r0: "weak_heap_refs producer_bcd ''a'' = None"
    and i0: "weak_heap_image_infos producer_bcd ''a'' = None"
    and b0: "weak_heap producer_bcd \<noteq> None"
    by (simp_all add: producer_bcd_def assign_weak_heap_def BackendConnectionData_init_def)
  define r where "r = fst (sh_add_data (heaps0 0) [])"
  define e where "e = producer_bcd\<lparr>weak_heap_refs := (weak_heap_refs producer_bcd)(''e'' \<mapsto> r)\<rparr>"
  define hs where "hs = heaps0(0 := snd (sh_add_data (heaps0 0) []))"
  have st: "empty_file_state = (e, hs)"
    by (simp add: empty_file_state_def set_file_bound [OF producer_bound] SharedHeap_ops_def
        e_def r_def hs_def)
  have be: "weak_heap e = Some 0" by (simp add: e_def producer_bound)
  have re: "weak_heap_refs e ''e'' = Some r" by (simp add: e_def)
  have ge: "get_data SharedHeap_ops (hs 0) r = Some []"
    by (simp add: hs_def r_def SharedHeap_ops_def sh_fresh_handle)
  from absent_results [where cs = ?cs and name = "''a''" and ops = SharedHeap_ops and u = 1
      and hs = heaps0 and e = producer_bcd] nc r0 i0 b0
  have 1: "get_file SharedHeap_ops ''a''
     (do_calls SharedHeap_ops ?cs
        (BackendConnectionData_init 1 :: (HeapHandle, unit) BackendConnectionData, heaps0))
     = Inr None
   \<and> get_file SharedHeap_ops ''a'' (producer_bcd, heaps0) = Inr None
   \<and> get_image SharedHeap_ops None (producer_bcd, heaps0) = Inr None
   \<and> get_image SharedHeap_ops (Some ''a'') (producer_bcd, heaps0) = Inr None"
    by blast
  from absent_results [where name = "''e''" and ops = SharedHeap_ops and hs = hs and e = e
      and h = 0 and r = r] be re ge
  have 2: "get_file SharedHeap_ops ''e'' (e, hs) = Inr (Some [])
      \<and> get_file SharedHeap_ops ''e'' (e, hs) \<noteq> Inr None"
    by blast
  have un: "weak_heap (pickle_loads (pickle_dumps file_bcd)) = None"
    and ru: "weak_heap_refs (pickle_loads (pickle_dumps file_bcd)) ''a''
      = Some \<lparr>hh_offset = 0, hh_size = 3, hh_epoch = 0\<rparr>"
    by (simp_all add: pickle_dumps_def getstate_def file_bcd_eq)
  from absent_results [where name = "''a''" and ops = SharedHeap_ops and hs = heaps0
      and e = "pickle_loads (pickle_dumps file_bcd)"
      and r = "\<lparr>hh_offset = 0, hh_size = 3, hh_epoch = 0\<rparr>"] un ru
  have 3: "get_image SharedHeap_ops (Some ''a'') (pickle_loads (pickle_dumps file_bcd), heaps0)
      = Inl AttributeError"
    by blast
  from 1 2 3 show ?thesis by (simp add: st)
qed

section \<open>Reports of the profile timing\<close>








end
